theory Spec2Isabelle
  imports Main "HOL-Library.Multiset"
begin

section \<open>Python values and exceptions used by the bug provider\<close>

text \<open>
  The module \<^verbatim>\<open>varats/provider/bug/bug.py\<close> raises no exception of its own; the ones
  that can leave its functions come from the built-ins it calls: \<^verbatim>\<open>str.index\<close>
  (ValueError), \<^verbatim>\<open>hash\<close> of a list (TypeError) and
  \<^verbatim>\<open>pygit2.Repository.revparse_single\<close> (KeyError). \<^verbatim>\<open>bug_provider.py\<close> adds one: the
  lookup of a name in the bug module (AttributeError). A function that can raise returns
  \<open>py_error + 'a\<close>, with \<open>Inl\<close> for the exception.

  A Python \<^verbatim>\<open>str\<close> is modelled as a \<open>string\<close> whose characters are the code points
  below 256.
\<close>

datatype py_error = ValueError | TypeError | KeyError | AttributeError

definition bind_err :: "py_error + 'a \<Rightarrow> ('a \<Rightarrow> py_error + 'b) \<Rightarrow> py_error + 'b" where
  "bind_err r f = (case r of Inl e \<Rightarrow> Inl e | Inr v \<Rightarrow> f v)"

definition newline :: char where
  "newline = CHR 0x0A"

text \<open>\<^verbatim>\<open>s.index(c)\<close> for a one-character \<^verbatim>\<open>c\<close>: the first position of \<^verbatim>\<open>c\<close>, ValueError
  when \<^verbatim>\<open>c\<close> does not occur.\<close>

fun str_index :: "string \<Rightarrow> char \<Rightarrow> py_error + nat" where
  "str_index [] c = Inl ValueError"
| "str_index (x # xs) c =
     (if x = c then Inr 0
      else (case str_index xs c of Inl e \<Rightarrow> Inl e | Inr i \<Rightarrow> Inr (Suc i)))"

text \<open>\<^verbatim>\<open>s.replace(a, b)\<close> for one-character \<^verbatim>\<open>a\<close> and \<^verbatim>\<open>b\<close>.\<close>

definition str_replace :: "string \<Rightarrow> char \<Rightarrow> char \<Rightarrow> string" where
  "str_replace s a b = map (\<lambda>c. if c = a then b else c) s"

text \<open>Truth value of an \<^verbatim>\<open>Optional[str]\<close>: \<^verbatim>\<open>None\<close> and the empty string are false.\<close>

definition truthy :: "string option \<Rightarrow> bool" where
  "truthy s = (case s of None \<Rightarrow> False | Some v \<Rightarrow> v \<noteq> [])"

subsection \<open>\<^verbatim>\<open>re.search\<close> with \<^verbatim>\<open>re.IGNORECASE\<close> for an alternation of literals\<close>

text \<open>
  The only pattern of the module is \<^verbatim>\<open>fix|fixed|fixes\<close>, an alternation of literals.
  Under \<^verbatim>\<open>re.IGNORECASE\<close> a literal character matches a text character when both have
  the same lower-case form. \<^verbatim>\<open>re.search\<close> tries every start position from the left and,
  at each position, the alternatives from the left; it returns the span of the first match
  or \<^verbatim>\<open>None\<close>.
\<close>

definition sre_lower :: "char \<Rightarrow> char" where
  "sre_lower c =
     (let n = (of_char c :: nat)
      in if (65 \<le> n \<and> n \<le> 90) \<or> (192 \<le> n \<and> n \<le> 222 \<and> n \<noteq> 215)
         then char_of (n + 32) else c)"

fun match_literal_ic :: "string \<Rightarrow> string \<Rightarrow> bool" where
  "match_literal_ic [] s = True"
| "match_literal_ic (p # ps) [] = False"
| "match_literal_ic (p # ps) (c # cs) = (sre_lower c = sre_lower p \<and> match_literal_ic ps cs)"

fun re_search_ic :: "string list \<Rightarrow> string \<Rightarrow> (nat \<times> nat) option" where
  "re_search_ic alts [] =
     (case find (\<lambda>p. match_literal_ic p []) alts of
        Some p \<Rightarrow> Some (0, length p)
      | None \<Rightarrow> None)"
| "re_search_ic alts (c # t) =
     (case find (\<lambda>p. match_literal_ic p (c # t)) alts of
        Some p \<Rightarrow> Some (0, length p)
      | None \<Rightarrow> map_option (\<lambda>(a, b). (Suc a, Suc b)) (re_search_ic alts t))"

definition closing_pattern :: "string list" where
  "closing_pattern = [''fix'', ''fixed'', ''fixes'']"

section \<open>Data model\<close>

text \<open>
  \<^verbatim>\<open>github.IssueEvent\<close> with the attributes the module reads, and \<^verbatim>\<open>pygit2.Commit\<close> with
  its \<^verbatim>\<open>hex\<close> and \<^verbatim>\<open>message\<close>.
\<close>

record Label =
  name :: string

record Issue =
  number :: int
  labels :: "Label list"

record IssueEvent =
  event :: string
  commit_id :: "string option"
  issue :: Issue

record Commit =
  hex :: string
  message :: string

text \<open>
  \<^verbatim>\<open>PygitBug\<close> and \<^verbatim>\<open>RawBug\<close> have the same three attributes and differ in the type of a
  change: a \<^verbatim>\<open>pygit2.Commit\<close> or a hash string. One record, parameterised by that type,
  keeps the attribute names for both classes.
\<close>

record 'c Bug =
  fixing_commit :: 'c
  introducing_commits :: "'c list"
  issue_id :: "int option"

type_synonym PygitBug = "Commit Bug"
type_synonym RawBug = "string Bug"

text \<open>An arbitrary Python object, as the \<^verbatim>\<open>other\<close> argument of \<^verbatim>\<open>__eq__\<close>.\<close>

datatype py_object = PygitBugObj PygitBug | RawBugObj RawBug | OtherObj

subsection \<open>Equality and hashing of bugs\<close>

definition PygitBug_eq :: "PygitBug \<Rightarrow> py_object \<Rightarrow> bool" where
  "PygitBug_eq self other =
     (case other of
        PygitBugObj b \<Rightarrow>
          fixing_commit self = fixing_commit b \<and>
          introducing_commits self = introducing_commits b \<and>
          issue_id self = issue_id b
      | RawBugObj b \<Rightarrow> False
      | OtherObj \<Rightarrow> False)"

definition RawBug_eq :: "RawBug \<Rightarrow> py_object \<Rightarrow> bool" where
  "RawBug_eq self other =
     (case other of
        RawBugObj b \<Rightarrow>
          fixing_commit self = fixing_commit b \<and>
          introducing_commits self = introducing_commits b \<and>
          issue_id self = issue_id b
      | PygitBugObj b \<Rightarrow> False
      | OtherObj \<Rightarrow> False)"

text \<open>
  \<^verbatim>\<open>hash\<close> of the built-in types. The hash of a string is salted per process and the
  hash of a commit is pygit2's, so the hashes of the hashable values are parameters.
  A list has no hash: \<^verbatim>\<open>hash([...])\<close> raises TypeError whatever the list holds. The hash
  of a tuple hashes its items from the left, raises what the first failing item raises,
  and combines the item hashes otherwise.
\<close>

record hash_prims =
  hash_str :: "string \<Rightarrow> int"
  hash_commit :: "Commit \<Rightarrow> int"
  hash_int :: "int \<Rightarrow> int"
  hash_None :: int
  hash_combine :: "int list \<Rightarrow> int"

definition hash_list :: "'a list \<Rightarrow> py_error + int" where
  "hash_list xs = Inl TypeError"

definition hash_optional_int :: "hash_prims \<Rightarrow> int option \<Rightarrow> py_error + int" where
  "hash_optional_int P v = (case v of None \<Rightarrow> Inr (hash_None P) | Some i \<Rightarrow> Inr (hash_int P i))"

fun hash_items :: "(py_error + int) list \<Rightarrow> py_error + int list" where
  "hash_items [] = Inr []"
| "hash_items (h # hs) =
     (case h of
        Inl e \<Rightarrow> Inl e
      | Inr v \<Rightarrow> (case hash_items hs of Inl e \<Rightarrow> Inl e | Inr vs \<Rightarrow> Inr (v # vs)))"

definition hash_tuple :: "hash_prims \<Rightarrow> (py_error + int) list \<Rightarrow> py_error + int" where
  "hash_tuple P items = (case hash_items items of Inl e \<Rightarrow> Inl e | Inr vs \<Rightarrow> Inr (hash_combine P vs))"

definition PygitBug_hash :: "hash_prims \<Rightarrow> PygitBug \<Rightarrow> py_error + int" where
  "PygitBug_hash P self =
     hash_tuple P
       [Inr (hash_commit P (fixing_commit self)),
        hash_list (introducing_commits self),
        hash_optional_int P (issue_id self)]"

definition RawBug_hash :: "hash_prims \<Rightarrow> RawBug \<Rightarrow> py_error + int" where
  "RawBug_hash P self =
     hash_tuple P
       [Inr (hash_str P (fixing_commit self)),
        hash_list (introducing_commits self),
        hash_optional_int P (issue_id self)]"

text \<open>\<^verbatim>\<open>s.add(x)\<close> on a Python set hashes \<^verbatim>\<open>x\<close> first and raises what the hash raises.\<close>

definition set_add :: "('a \<Rightarrow> py_error + int) \<Rightarrow> 'a \<Rightarrow> 'a set \<Rightarrow> py_error + 'a set" where
  "set_add h x s = (case h x of Inl e \<Rightarrow> Inl e | Inr v \<Rightarrow> Inr (insert x s))"

section \<open>Detectors\<close>

fun has_bug_label :: "Label list \<Rightarrow> bool" where
  "has_bug_label [] = False"
| "has_bug_label (label # rest) = (if name label = ''bug'' then True else has_bug_label rest)"

definition has_closed_a_bug :: "IssueEvent \<Rightarrow> bool" where
  "has_closed_a_bug issue_event =
     (if event issue_event \<noteq> ''closed'' \<or> commit_id issue_event = None then False
      else has_bug_label (labels (issue issue_event)))"

definition is_closing_message :: "string \<Rightarrow> py_error + bool" where
  "is_closing_message commit_message =
     (case str_index commit_message newline of
        Inl e \<Rightarrow> Inl e
      | Inr i \<Rightarrow>
          (let first_line = take i commit_message
           in (case re_search_ic closing_pattern first_line of
                 Some m \<Rightarrow> Inr True
               | None \<Rightarrow> Inr False)))"

section \<open>Collaborators\<close>

text \<open>
  The repository accessor and the cache of issue events are not part of the module; what
  they return is a parameter. A repository gives the commits that
  \<^verbatim>\<open>walk(head, GIT_SORT_TIME)\<close> visits, in that order, and \<^verbatim>\<open>revparse_single\<close>, which
  raises KeyError for an identifier it does not know. The repository of a project is
  taken to open and to have a head commit.
\<close>

record Repository =
  revparse_single :: "string \<Rightarrow> py_error + Commit"
  walk_from_head :: "Commit list"

record environment =
  get_local_project_git_path_name :: "string \<Rightarrow> string"
  get_local_project_git :: "string \<Rightarrow> Repository"
  get_cached_github_object_list :: "string \<Rightarrow> string \<Rightarrow> IssueEvent list option"

text \<open>
  \<^verbatim>\<open>get_cached_github_object_list\<close> receives the name of the cache file and a loader
  that closes over the project name; the second argument stands for the loader.
\<close>

definition get_all_issue_events :: "environment \<Rightarrow> string \<Rightarrow> IssueEvent list" where
  "get_all_issue_events env project_name =
     (let repo_path_name = get_local_project_git_path_name env project_name;
          cache_file_name = str_replace repo_path_name (CHR ''/'') (CHR ''_'') @ ''_issues_events'';
          issue_events = get_cached_github_object_list env cache_file_name project_name
      in (case issue_events of
            None \<Rightarrow> []
          | Some evs \<Rightarrow> (if evs \<noteq> [] then evs else [])))"

section \<open>Bug resolver\<close>

definition search_corresponding_pygit_bug ::
  "string \<Rightarrow> Repository \<Rightarrow> int option \<Rightarrow> py_error + PygitBug" where
  "search_corresponding_pygit_bug closing_commit project_repo issue_number =
     (case revparse_single project_repo closing_commit of
        Inl e \<Rightarrow> Inl e
      | Inr closing_pycommit \<Rightarrow>
          (let introducing_pycommits = []
           in Inr \<lparr>fixing_commit = closing_pycommit,
                   introducing_commits = introducing_pycommits,
                   issue_id = issue_number\<rparr>))"

definition search_corresponding_raw_bug :: "string \<Rightarrow> Repository \<Rightarrow> int option \<Rightarrow> RawBug" where
  "search_corresponding_raw_bug closing_commit project_repo issue_number =
     (let introducing_ids = []
      in \<lparr>fixing_commit = closing_commit,
          introducing_commits = introducing_ids,
          issue_id = issue_number\<rparr>)"

section \<open>Reconciliation\<close>

text \<open>
  One \<^verbatim>\<open>for\<close> loop of \<^verbatim>\<open>_filter_all_pygit_bugs\<close> / \<^verbatim>\<open>_filter_all_raw_bugs\<close>: each element
  goes through the filter function, and a bug it returns is added to the result set.
  A bug object is always true, so \<^verbatim>\<open>if pybug:\<close> tests for \<^verbatim>\<open>None\<close> only. An exception of
  the filter function or of \<^verbatim>\<open>add\<close> ends the loop.
\<close>

fun add_accepted ::
  "('b \<Rightarrow> py_error + int) \<Rightarrow> ('a \<Rightarrow> py_error + 'b option) \<Rightarrow> 'a list \<Rightarrow> 'b set \<Rightarrow> py_error + 'b set" where
  "add_accepted h filter_function [] resulting_bugs = Inr resulting_bugs"
| "add_accepted h filter_function (x # xs) resulting_bugs =
     (case filter_function x of
        Inl e \<Rightarrow> Inl e
      | Inr None \<Rightarrow> add_accepted h filter_function xs resulting_bugs
      | Inr (Some bug) \<Rightarrow>
          (case set_add h bug resulting_bugs of
             Inl e \<Rightarrow> Inl e
           | Inr resulting_bugs' \<Rightarrow> add_accepted h filter_function xs resulting_bugs'))"

definition filter_all_pygit_bugs ::
  "hash_prims \<Rightarrow> environment \<Rightarrow> string \<Rightarrow> (IssueEvent \<Rightarrow> py_error + PygitBug option) \<Rightarrow>
   (Commit \<Rightarrow> py_error + PygitBug option) \<Rightarrow> py_error + PygitBug set" where
  "filter_all_pygit_bugs P env project_name issue_filter_function commit_filter_function =
     (let issue_events = get_all_issue_events env project_name
      in (case add_accepted (PygitBug_hash P) issue_filter_function issue_events {} of
            Inl e \<Rightarrow> Inl e
          | Inr resulting_pygit_bugs \<Rightarrow>
              (let project_repo = get_local_project_git env project_name
               in add_accepted (PygitBug_hash P) commit_filter_function
                    (walk_from_head project_repo) resulting_pygit_bugs)))"

definition filter_all_raw_bugs ::
  "hash_prims \<Rightarrow> environment \<Rightarrow> string \<Rightarrow> (IssueEvent \<Rightarrow> py_error + RawBug option) \<Rightarrow>
   (Commit \<Rightarrow> py_error + RawBug option) \<Rightarrow> py_error + RawBug set" where
  "filter_all_raw_bugs P env project_name issue_filter_function commit_filter_function =
     (let issue_events = get_all_issue_events env project_name
      in (case add_accepted (RawBug_hash P) issue_filter_function issue_events {} of
            Inl e \<Rightarrow> Inl e
          | Inr resulting_raw_bugs \<Rightarrow>
              (let project_repo = get_local_project_git env project_name
               in add_accepted (RawBug_hash P) commit_filter_function
                    (walk_from_head project_repo) resulting_raw_bugs)))"

subsection \<open>All bugs\<close>

definition accept_all_issue_pybugs ::
  "environment \<Rightarrow> string \<Rightarrow> IssueEvent \<Rightarrow> py_error + PygitBug option" where
  "accept_all_issue_pybugs env project_name issue_event =
     (if has_closed_a_bug issue_event \<and> truthy (commit_id issue_event) then
        (let pygit_repo = get_local_project_git env project_name
         in (case search_corresponding_pygit_bug (the (commit_id issue_event)) pygit_repo
                   (Some (number (issue issue_event))) of
               Inl e \<Rightarrow> Inl e
             | Inr pybug \<Rightarrow> Inr (Some pybug)))
      else Inr None)"

definition accept_all_commit_pybugs ::
  "environment \<Rightarrow> string \<Rightarrow> Commit \<Rightarrow> py_error + PygitBug option" where
  "accept_all_commit_pybugs env project_name commit =
     (case is_closing_message (message commit) of
        Inl e \<Rightarrow> Inl e
      | Inr closing \<Rightarrow>
          (if closing then
             (let pygit_repo = get_local_project_git env project_name
              in (case search_corresponding_pygit_bug (hex commit) pygit_repo None of
                    Inl e \<Rightarrow> Inl e
                  | Inr pybug \<Rightarrow> Inr (Some pybug)))
           else Inr None))"

definition find_all_pygit_bugs :: "hash_prims \<Rightarrow> environment \<Rightarrow> string \<Rightarrow> py_error + PygitBug set" where
  "find_all_pygit_bugs P env project_name =
     filter_all_pygit_bugs P env project_name
       (accept_all_issue_pybugs env project_name) (accept_all_commit_pybugs env project_name)"

definition accept_all_issue_rawbugs ::
  "environment \<Rightarrow> string \<Rightarrow> IssueEvent \<Rightarrow> py_error + RawBug option" where
  "accept_all_issue_rawbugs env project_name issue_event =
     (if has_closed_a_bug issue_event \<and> truthy (commit_id issue_event) then
        (let pygit_repo = get_local_project_git env project_name
         in Inr (Some (search_corresponding_raw_bug (the (commit_id issue_event)) pygit_repo
                         (Some (number (issue issue_event))))))
      else Inr None)"

definition accept_all_commit_rawbugs ::
  "environment \<Rightarrow> string \<Rightarrow> Commit \<Rightarrow> py_error + RawBug option" where
  "accept_all_commit_rawbugs env project_name commit =
     (case is_closing_message (message commit) of
        Inl e \<Rightarrow> Inl e
      | Inr closing \<Rightarrow>
          (if closing then
             (let pygit_repo = get_local_project_git env project_name
              in Inr (Some (search_corresponding_raw_bug (hex commit) pygit_repo None)))
           else Inr None))"

definition find_all_raw_bugs :: "hash_prims \<Rightarrow> environment \<Rightarrow> string \<Rightarrow> py_error + RawBug set" where
  "find_all_raw_bugs P env project_name =
     filter_all_raw_bugs P env project_name
       (accept_all_issue_rawbugs env project_name) (accept_all_commit_rawbugs env project_name)"

subsection \<open>Bugs by fixing commit\<close>

definition accept_issue_pybug_with_certain_fix ::
  "environment \<Rightarrow> string \<Rightarrow> string \<Rightarrow> IssueEvent \<Rightarrow> py_error + PygitBug option" where
  "accept_issue_pybug_with_certain_fix env project_name fixing_commit' issue_event =
     (if has_closed_a_bug issue_event \<and> truthy (commit_id issue_event) then
        (let pygit_repo = get_local_project_git env project_name
         in (case search_corresponding_pygit_bug (the (commit_id issue_event)) pygit_repo
                   (Some (number (issue issue_event))) of
               Inl e \<Rightarrow> Inl e
             | Inr pybug \<Rightarrow>
                 (if hex (fixing_commit pybug) = fixing_commit' then Inr (Some pybug)
                  else Inr None)))
      else Inr None)"

definition accept_commit_pybug_with_certain_fix ::
  "environment \<Rightarrow> string \<Rightarrow> string \<Rightarrow> Commit \<Rightarrow> py_error + PygitBug option" where
  "accept_commit_pybug_with_certain_fix env project_name fixing_commit' commit =
     (case is_closing_message (message commit) of
        Inl e \<Rightarrow> Inl e
      | Inr closing \<Rightarrow>
          (if closing then
             (let pygit_repo = get_local_project_git env project_name
              in (case search_corresponding_pygit_bug (hex commit) pygit_repo None of
                    Inl e \<Rightarrow> Inl e
                  | Inr pybug \<Rightarrow>
                      (if hex (fixing_commit pybug) = fixing_commit' then Inr (Some pybug)
                       else Inr None)))
           else Inr None))"

definition find_pygit_bug_by_fix ::
  "hash_prims \<Rightarrow> environment \<Rightarrow> string \<Rightarrow> string \<Rightarrow> py_error + PygitBug set" where
  "find_pygit_bug_by_fix P env project_name fixing_commit' =
     filter_all_pygit_bugs P env project_name
       (accept_issue_pybug_with_certain_fix env project_name fixing_commit')
       (accept_commit_pybug_with_certain_fix env project_name fixing_commit')"

definition accept_issue_rawbug_with_certain_fix ::
  "environment \<Rightarrow> string \<Rightarrow> string \<Rightarrow> IssueEvent \<Rightarrow> py_error + RawBug option" where
  "accept_issue_rawbug_with_certain_fix env project_name fixing_commit' issue_event =
     (if has_closed_a_bug issue_event \<and> truthy (commit_id issue_event) then
        (let pygit_repo = get_local_project_git env project_name;
             rawbug = search_corresponding_raw_bug (the (commit_id issue_event)) pygit_repo
                        (Some (number (issue issue_event)))
         in (if fixing_commit rawbug = fixing_commit' then Inr (Some rawbug) else Inr None))
      else Inr None)"

definition accept_commit_rawbug_with_certain_fix ::
  "environment \<Rightarrow> string \<Rightarrow> string \<Rightarrow> Commit \<Rightarrow> py_error + RawBug option" where
  "accept_commit_rawbug_with_certain_fix env project_name fixing_commit' commit =
     (case is_closing_message (message commit) of
        Inl e \<Rightarrow> Inl e
      | Inr closing \<Rightarrow>
          (if closing then
             (let pygit_repo = get_local_project_git env project_name;
                  rawbug = search_corresponding_raw_bug (hex commit) pygit_repo None
              in (if fixing_commit rawbug = fixing_commit' then Inr (Some rawbug) else Inr None))
           else Inr None))"

definition find_raw_bug_by_fix ::
  "hash_prims \<Rightarrow> environment \<Rightarrow> string \<Rightarrow> string \<Rightarrow> py_error + RawBug set" where
  "find_raw_bug_by_fix P env project_name fixing_commit' =
     filter_all_raw_bugs P env project_name
       (accept_issue_rawbug_with_certain_fix env project_name fixing_commit')
       (accept_commit_rawbug_with_certain_fix env project_name fixing_commit')"

subsection \<open>Bugs by introducing commit\<close>

text \<open>
  The inner loop of the four filter functions: return the bug at the first introducing
  commit that is the wanted one, \<^verbatim>\<open>None\<close> when the loop runs out.
\<close>

fun return_if_introduced :: "('c \<Rightarrow> bool) \<Rightarrow> 'c Bug \<Rightarrow> 'c list \<Rightarrow> 'c Bug option" where
  "return_if_introduced wanted bug [] = None"
| "return_if_introduced wanted bug (c # cs) =
     (if wanted c then Some bug else return_if_introduced wanted bug cs)"

definition accept_issue_pybug_with_certain_introduction ::
  "environment \<Rightarrow> string \<Rightarrow> string \<Rightarrow> IssueEvent \<Rightarrow> py_error + PygitBug option" where
  "accept_issue_pybug_with_certain_introduction env project_name introducing_commit issue_event =
     (if has_closed_a_bug issue_event \<and> truthy (commit_id issue_event) then
        (let pygit_repo = get_local_project_git env project_name
         in (case search_corresponding_pygit_bug (the (commit_id issue_event)) pygit_repo
                   (Some (number (issue issue_event))) of
               Inl e \<Rightarrow> Inl e
             | Inr pybug \<Rightarrow>
                 Inr (return_if_introduced (\<lambda>introducing_pycommit. hex introducing_pycommit = introducing_commit)
                        pybug (introducing_commits pybug))))
      else Inr None)"

text \<open>
  The commit variant compares the \<^verbatim>\<open>pygit2.Commit\<close> itself with the identifier string;
  a commit never equals a string.
\<close>

definition accept_commit_pybug_with_certain_introduction ::
  "environment \<Rightarrow> string \<Rightarrow> string \<Rightarrow> Commit \<Rightarrow> py_error + PygitBug option" where
  "accept_commit_pybug_with_certain_introduction env project_name introducing_commit commit =
     (case is_closing_message (message commit) of
        Inl e \<Rightarrow> Inl e
      | Inr closing \<Rightarrow>
          (if closing then
             (let pygit_repo = get_local_project_git env project_name
              in (case search_corresponding_pygit_bug (hex commit) pygit_repo None of
                    Inl e \<Rightarrow> Inl e
                  | Inr pybug \<Rightarrow>
                      Inr (return_if_introduced (\<lambda>introducing_pycommit. False)
                             pybug (introducing_commits pybug))))
           else Inr None))"

definition find_pygit_bug_by_introduction ::
  "hash_prims \<Rightarrow> environment \<Rightarrow> string \<Rightarrow> string \<Rightarrow> py_error + PygitBug set" where
  "find_pygit_bug_by_introduction P env project_name introducing_commit =
     filter_all_pygit_bugs P env project_name
       (accept_issue_pybug_with_certain_introduction env project_name introducing_commit)
       (accept_commit_pybug_with_certain_introduction env project_name introducing_commit)"

definition accept_issue_rawbug_with_certain_introduction ::
  "environment \<Rightarrow> string \<Rightarrow> string \<Rightarrow> IssueEvent \<Rightarrow> py_error + RawBug option" where
  "accept_issue_rawbug_with_certain_introduction env project_name introducing_commit issue_event =
     (if has_closed_a_bug issue_event \<and> truthy (commit_id issue_event) then
        (let pygit_repo = get_local_project_git env project_name;
             rawbug = search_corresponding_raw_bug (the (commit_id issue_event)) pygit_repo
                        (Some (number (issue issue_event)))
         in Inr (return_if_introduced (\<lambda>introducing_id. introducing_id = introducing_commit)
                   rawbug (introducing_commits rawbug)))
      else Inr None)"

definition accept_commit_rawbug_with_certain_introduction ::
  "environment \<Rightarrow> string \<Rightarrow> string \<Rightarrow> Commit \<Rightarrow> py_error + RawBug option" where
  "accept_commit_rawbug_with_certain_introduction env project_name introducing_commit commit =
     (case is_closing_message (message commit) of
        Inl e \<Rightarrow> Inl e
      | Inr closing \<Rightarrow>
          (if closing then
             (let pygit_repo = get_local_project_git env project_name;
                  rawbug = search_corresponding_raw_bug (hex commit) pygit_repo None
              in Inr (return_if_introduced (\<lambda>introducing_pycommit. introducing_pycommit = introducing_commit)
                        rawbug (introducing_commits rawbug)))
           else Inr None))"

definition find_raw_bug_by_introduction ::
  "hash_prims \<Rightarrow> environment \<Rightarrow> string \<Rightarrow> string \<Rightarrow> py_error + RawBug set" where
  "find_raw_bug_by_introduction P env project_name introducing_commit =
     filter_all_raw_bugs P env project_name
       (accept_issue_rawbug_with_certain_introduction env project_name introducing_commit)
       (accept_commit_rawbug_with_certain_introduction env project_name introducing_commit)"

section \<open>The namespace of the bug module\<close>

text \<open>
  \<^verbatim>\<open>bug_provider.py\<close> reaches the bug module through \<^verbatim>\<open>import ... as bug\<close> and
  \<^verbatim>\<open>bug.name(...)\<close>: the name is looked up in the module when the call runs, and a name
  the module does not bind raises AttributeError. A module is therefore a map from names
  to attributes. An attribute is one of the query functions, called with its list of
  arguments (a list of another length raises TypeError, as a call with the wrong number
  of arguments does), or something else: a class, an import, a private helper. The bugs a
  query returns are Python objects, since a Python set takes elements of any class.
\<close>

datatype bug_attribute =
  Query "string list \<Rightarrow> py_error + py_object set"
| OtherAttribute

type_synonym bug_module = "string \<Rightarrow> bug_attribute option"

definition module_getattr :: "bug_module \<Rightarrow> string \<Rightarrow> py_error + bug_attribute" where
  "module_getattr module attr =
     (case module attr of None \<Rightarrow> Inl AttributeError | Some a \<Rightarrow> Inr a)"

text \<open>
  What a call of an attribute that is no query does depends on the attribute; the
  provider names none of them, and the model lets such a call raise TypeError.
\<close>

definition call_attribute :: "bug_attribute \<Rightarrow> string list \<Rightarrow> py_error + py_object set" where
  "call_attribute a args = (case a of Query f \<Rightarrow> f args | OtherAttribute \<Rightarrow> Inl TypeError)"

definition query1 :: "(string \<Rightarrow> py_error + 'b set) \<Rightarrow> ('b \<Rightarrow> py_object) \<Rightarrow> bug_attribute" where
  "query1 f wrap =
     Query (\<lambda>args. case args of
                     [project_name] \<Rightarrow>
                       (case f project_name of Inl e \<Rightarrow> Inl e | Inr bugs \<Rightarrow> Inr (wrap ` bugs))
                   | _ \<Rightarrow> Inl TypeError)"

definition query2 ::
  "(string \<Rightarrow> string \<Rightarrow> py_error + 'b set) \<Rightarrow> ('b \<Rightarrow> py_object) \<Rightarrow> bug_attribute" where
  "query2 f wrap =
     Query (\<lambda>args. case args of
                     [project_name, commit] \<Rightarrow>
                       (case f project_name commit of
                          Inl e \<Rightarrow> Inl e
                        | Inr bugs \<Rightarrow> Inr (wrap ` bugs))
                   | _ \<Rightarrow> Inl TypeError)"

text \<open>
  The names that the statements of \<^verbatim>\<open>bug.py\<close> bind: its imports, its two classes, its
  private helpers and its six public queries. (The names that the import machinery sets,
  \<^verbatim>\<open>__name__\<close> and the like, are left out.)
\<close>

definition bug_py_other_names :: "string list" where
  "bug_py_other_names =
     [''re'', ''tp'', ''pygit2'', ''Github'', ''IssueEvent'', ''PaginatedList'', ''Repository'',
      ''get_local_project_git_path'', ''get_local_project_git'',
      ''get_cached_github_object_list'', ''PygitBug'', ''RawBug'',
      ''_has_closed_a_bug'', ''_is_closing_message'', ''_get_all_issue_events'',
      ''_search_corresponding_pygit_bug'', ''_search_corresponding_raw_bug'',
      ''_filter_all_pygit_bugs'', ''_filter_all_raw_bugs'']"

definition bug_py :: "hash_prims \<Rightarrow> environment \<Rightarrow> bug_module" where
  "bug_py P env attr =
     (if attr = ''find_all_pygit_bugs'' then
        Some (query1 (find_all_pygit_bugs P env) PygitBugObj)
      else if attr = ''find_all_raw_bugs'' then
        Some (query1 (find_all_raw_bugs P env) RawBugObj)
      else if attr = ''find_pygit_bug_by_fix'' then
        Some (query2 (find_pygit_bug_by_fix P env) PygitBugObj)
      else if attr = ''find_raw_bug_by_fix'' then
        Some (query2 (find_raw_bug_by_fix P env) RawBugObj)
      else if attr = ''find_pygit_bug_by_introduction'' then
        Some (query2 (find_pygit_bug_by_introduction P env) PygitBugObj)
      else if attr = ''find_raw_bug_by_introduction'' then
        Some (query2 (find_raw_bug_by_introduction P env) RawBugObj)
      else if attr \<in> set bug_py_other_names then Some OtherAttribute
      else None)"

section \<open>Query provider\<close>

text \<open>
  The provider works on whatever module the name \<^verbatim>\<open>bug\<close> is bound to; the module is
  the first argument of its methods, and \<open>bug_py\<close> is the module that is shipped.

  \<^verbatim>\<open>a.union(b)\<close> returns a new set and leaves \<^verbatim>\<open>a\<close> as it was. The provider writes the
  call as a statement of its own, so the new set is dropped: \<open>expr_stmt\<close> evaluates an
  expression, keeps its exception and forgets its value. The argument of \<^verbatim>\<open>union\<close> is
  evaluated first: the lookup of the name in the module, then the call.
\<close>

record Project =
  NAME :: string

definition set_union :: "'a set \<Rightarrow> 'a set \<Rightarrow> 'a set" where
  "set_union a b = a \<union> b"

definition expr_stmt :: "py_error + 'a \<Rightarrow> py_error + unit" where
  "expr_stmt r = (case r of Inl e \<Rightarrow> Inl e | Inr v \<Rightarrow> Inr ())"

definition BugProvider_find_all_pygit_bugs ::
  "bug_module \<Rightarrow> Project \<Rightarrow> string option \<Rightarrow> py_error + PygitBug set" where
  "BugProvider_find_all_pygit_bugs bug project github_project_name =
     (let resulting_bugs = {}
      in bind_err
           (if truthy github_project_name then
              expr_stmt
                (bind_err (module_getattr bug ''find_all_issue_pygit_bugs'')
                   (\<lambda>f. bind_err (call_attribute f [the github_project_name])
                          (\<lambda>bugs. Inr (set_union (PygitBugObj ` resulting_bugs) bugs))))
            else Inr ())
           (\<lambda>u. bind_err
                  (expr_stmt
                     (bind_err (module_getattr bug ''find_all_commit_message_pygit_bugs'')
                        (\<lambda>f. bind_err (call_attribute f [NAME project])
                               (\<lambda>bugs. Inr (set_union (PygitBugObj ` resulting_bugs) bugs)))))
                  (\<lambda>u. Inr resulting_bugs)))"

definition BugProvider_find_all_raw_bugs ::
  "bug_module \<Rightarrow> Project \<Rightarrow> string option \<Rightarrow> py_error + RawBug set" where
  "BugProvider_find_all_raw_bugs bug project github_project_name =
     (let resulting_bugs = {}
      in bind_err
           (if truthy github_project_name then
              expr_stmt
                (bind_err (module_getattr bug ''find_all_issue_raw_bugs'')
                   (\<lambda>f. bind_err (call_attribute f [the github_project_name])
                          (\<lambda>bugs. Inr (set_union (RawBugObj ` resulting_bugs) bugs))))
            else Inr ())
           (\<lambda>u. bind_err
                  (expr_stmt
                     (bind_err (module_getattr bug ''find_all_commit_message_raw_bugs'')
                        (\<lambda>f. bind_err (call_attribute f [NAME project])
                               (\<lambda>bugs. Inr (set_union (RawBugObj ` resulting_bugs) bugs)))))
                  (\<lambda>u. Inr resulting_bugs)))"

definition BugProvider_find_pygit_bug_by_fix ::
  "bug_module \<Rightarrow> Project \<Rightarrow> string option \<Rightarrow> string \<Rightarrow> py_error + PygitBug set" where
  "BugProvider_find_pygit_bug_by_fix bug project github_project_name fixing_commit' =
     (let resulting_bugs = {}
      in bind_err
           (if truthy github_project_name then
              expr_stmt
                (bind_err (module_getattr bug ''find_issue_pygit_bugs_by_fix'')
                   (\<lambda>f. bind_err (call_attribute f [the github_project_name, fixing_commit'])
                          (\<lambda>bugs. Inr (set_union (PygitBugObj ` resulting_bugs) bugs))))
            else Inr ())
           (\<lambda>u. bind_err
                  (expr_stmt
                     (bind_err (module_getattr bug ''find_commit_message_pygit_bugs_by_fix'')
                        (\<lambda>f. bind_err (call_attribute f [NAME project, fixing_commit'])
                               (\<lambda>bugs. Inr (set_union (PygitBugObj ` resulting_bugs) bugs)))))
                  (\<lambda>u. Inr resulting_bugs)))"

definition BugProvider_find_raw_bug_by_fix ::
  "bug_module \<Rightarrow> Project \<Rightarrow> string option \<Rightarrow> string \<Rightarrow> py_error + RawBug set" where
  "BugProvider_find_raw_bug_by_fix bug project github_project_name fixing_commit' =
     (let resulting_bugs = {}
      in bind_err
           (if truthy github_project_name then
              expr_stmt
                (bind_err (module_getattr bug ''find_issue_raw_bugs_by_fix'')
                   (\<lambda>f. bind_err (call_attribute f [the github_project_name, fixing_commit'])
                          (\<lambda>bugs. Inr (set_union (RawBugObj ` resulting_bugs) bugs))))
            else Inr ())
           (\<lambda>u. bind_err
                  (expr_stmt
                     (bind_err (module_getattr bug ''find_commit_message_raw_bugs_by_fix'')
                        (\<lambda>f. bind_err (call_attribute f [NAME project, fixing_commit'])
                               (\<lambda>bugs. Inr (set_union (RawBugObj ` resulting_bugs) bugs)))))
                  (\<lambda>u. Inr resulting_bugs)))"

definition BugProvider_find_pygit_bug_by_introduction ::
  "bug_module \<Rightarrow> Project \<Rightarrow> string option \<Rightarrow> string \<Rightarrow> py_error + PygitBug set" where
  "BugProvider_find_pygit_bug_by_introduction bug project github_project_name introducing_commit =
     (let resulting_bugs = {}
      in bind_err
           (if truthy github_project_name then
              expr_stmt
                (bind_err (module_getattr bug ''find_issue_pygit_bugs_by_introduction'')
                   (\<lambda>f. bind_err (call_attribute f [the github_project_name, introducing_commit])
                          (\<lambda>bugs. Inr (set_union (PygitBugObj ` resulting_bugs) bugs))))
            else Inr ())
           (\<lambda>u. bind_err
                  (expr_stmt
                     (bind_err (module_getattr bug ''find_commit_message_pygit_bugs_by_introduction'')
                        (\<lambda>f. bind_err (call_attribute f [NAME project, introducing_commit])
                               (\<lambda>bugs. Inr (set_union (PygitBugObj ` resulting_bugs) bugs)))))
                  (\<lambda>u. Inr resulting_bugs)))"

definition BugProvider_find_raw_bug_by_introduction ::
  "bug_module \<Rightarrow> Project \<Rightarrow> string option \<Rightarrow> string \<Rightarrow> py_error + RawBug set" where
  "BugProvider_find_raw_bug_by_introduction bug project github_project_name introducing_commit =
     (let resulting_bugs = {}
      in bind_err
           (if truthy github_project_name then
              expr_stmt
                (bind_err (module_getattr bug ''find_issue_raw_bugs_by_introduction'')
                   (\<lambda>f. bind_err (call_attribute f [the github_project_name, introducing_commit])
                          (\<lambda>bugs. Inr (set_union (RawBugObj ` resulting_bugs) bugs))))
            else Inr ())
           (\<lambda>u. bind_err
                  (expr_stmt
                     (bind_err (module_getattr bug ''find_commit_message_raw_bugs_by_introduction'')
                        (\<lambda>f. bind_err (call_attribute f [NAME project, introducing_commit])
                               (\<lambda>bugs. Inr (set_union (RawBugObj ` resulting_bugs) bugs)))))
                  (\<lambda>u. Inr resulting_bugs)))"

text \<open>\<^verbatim>\<open>BugDefaultProvider\<close> overrides the six queries.\<close>

definition BugDefaultProvider_find_all_pygit_bugs :: "Project \<Rightarrow> PygitBug set" where
  "BugDefaultProvider_find_all_pygit_bugs project = {}"

definition BugDefaultProvider_find_all_raw_bugs :: "Project \<Rightarrow> RawBug set" where
  "BugDefaultProvider_find_all_raw_bugs project = {}"

definition BugDefaultProvider_find_pygit_bug_by_fix :: "Project \<Rightarrow> string \<Rightarrow> PygitBug set" where
  "BugDefaultProvider_find_pygit_bug_by_fix project fixing_commit' = {}"

definition BugDefaultProvider_find_raw_bug_by_fix :: "Project \<Rightarrow> string \<Rightarrow> RawBug set" where
  "BugDefaultProvider_find_raw_bug_by_fix project fixing_commit' = {}"

definition BugDefaultProvider_find_pygit_bug_by_introduction :: "Project \<Rightarrow> string \<Rightarrow> PygitBug set" where
  "BugDefaultProvider_find_pygit_bug_by_introduction project introducing_commit = {}"

definition BugDefaultProvider_find_raw_bug_by_introduction :: "Project \<Rightarrow> string \<Rightarrow> RawBug set" where
  "BugDefaultProvider_find_raw_bug_by_introduction project introducing_commit = {}"

text \<open>
  A provider object is of one of the two classes; a call of a query on it runs the method
  of its class.
\<close>

datatype Provider = BugProvider Project "string option" | BugDefaultProvider Project

definition create_default_provider :: "Project \<Rightarrow> Provider" where
  "create_default_provider project = BugDefaultProvider project"

definition call_find_all_pygit_bugs ::
  "bug_module \<Rightarrow> Provider \<Rightarrow> py_error + PygitBug set" where
  "call_find_all_pygit_bugs bug provider =
     (case provider of
        BugProvider project github_project_name \<Rightarrow>
          BugProvider_find_all_pygit_bugs bug project github_project_name
      | BugDefaultProvider project \<Rightarrow> Inr (BugDefaultProvider_find_all_pygit_bugs project))"

definition call_find_all_raw_bugs ::
  "bug_module \<Rightarrow> Provider \<Rightarrow> py_error + RawBug set" where
  "call_find_all_raw_bugs bug provider =
     (case provider of
        BugProvider project github_project_name \<Rightarrow>
          BugProvider_find_all_raw_bugs bug project github_project_name
      | BugDefaultProvider project \<Rightarrow> Inr (BugDefaultProvider_find_all_raw_bugs project))"

definition call_find_pygit_bug_by_fix ::
  "bug_module \<Rightarrow> Provider \<Rightarrow> string \<Rightarrow> py_error + PygitBug set" where
  "call_find_pygit_bug_by_fix bug provider fixing_commit' =
     (case provider of
        BugProvider project github_project_name \<Rightarrow>
          BugProvider_find_pygit_bug_by_fix bug project github_project_name fixing_commit'
      | BugDefaultProvider project \<Rightarrow> Inr (BugDefaultProvider_find_pygit_bug_by_fix project fixing_commit'))"

definition call_find_raw_bug_by_fix ::
  "bug_module \<Rightarrow> Provider \<Rightarrow> string \<Rightarrow> py_error + RawBug set" where
  "call_find_raw_bug_by_fix bug provider fixing_commit' =
     (case provider of
        BugProvider project github_project_name \<Rightarrow>
          BugProvider_find_raw_bug_by_fix bug project github_project_name fixing_commit'
      | BugDefaultProvider project \<Rightarrow> Inr (BugDefaultProvider_find_raw_bug_by_fix project fixing_commit'))"

definition call_find_pygit_bug_by_introduction ::
  "bug_module \<Rightarrow> Provider \<Rightarrow> string \<Rightarrow> py_error + PygitBug set" where
  "call_find_pygit_bug_by_introduction bug provider introducing_commit =
     (case provider of
        BugProvider project github_project_name \<Rightarrow>
          BugProvider_find_pygit_bug_by_introduction bug project github_project_name introducing_commit
      | BugDefaultProvider project \<Rightarrow> Inr (BugDefaultProvider_find_pygit_bug_by_introduction project introducing_commit))"

definition call_find_raw_bug_by_introduction ::
  "bug_module \<Rightarrow> Provider \<Rightarrow> string \<Rightarrow> py_error + RawBug set" where
  "call_find_raw_bug_by_introduction bug provider introducing_commit =
     (case provider of
        BugProvider project github_project_name \<Rightarrow>
          BugProvider_find_raw_bug_by_introduction bug project github_project_name introducing_commit
      | BugDefaultProvider project \<Rightarrow> Inr (BugDefaultProvider_find_raw_bug_by_introduction project introducing_commit))"

section \<open>Notions used to state the properties\<close>

text \<open>
  A literal occurs in a line, ignoring case: some stretch of the line has the literal's
  lower-case form. This follows the words of the specification (``a case-insensitive
  match occurs anywhere in that first line''), to be compared with \<open>re_search_ic\<close>.
\<close>

definition occurs_ic :: "string \<Rightarrow> string \<Rightarrow> bool" where
  "occurs_ic lit line = (\<exists>u v w. line = u @ v @ w \<and> map sre_lower v = map sre_lower lit)"

text \<open>
  The identifiers that a find-all query hands to the resolver: the commit ids of the
  issue events that pass the issue-close detector, then the hashes of the commits on the
  walk whose message passes the commit-message detector.
\<close>

definition closing_identifiers :: "environment \<Rightarrow> string \<Rightarrow> string list" where
  "closing_identifiers env project_name =
     map (\<lambda>issue_event. the (commit_id issue_event))
       (filter (\<lambda>issue_event. has_closed_a_bug issue_event \<and> truthy (commit_id issue_event))
          (get_all_issue_events env project_name)) @
     map hex
       (filter (\<lambda>commit. is_closing_message (message commit) = Inr True)
          (walk_from_head (get_local_project_git env project_name)))"

subsection \<open>Concrete projects\<close>

definition example_hash :: hash_prims where
  "example_hash =
     \<lparr>hash_str = (\<lambda>s. int (length s)),
      hash_commit = (\<lambda>c. int (length (hex c))),
      hash_int = (\<lambda>i. i),
      hash_None = 0,
      hash_combine = sum_list\<rparr>"

definition fixing_commit_abc :: Commit where
  "fixing_commit_abc = \<lparr>hex = ''abc123'', message = ''Fixes #12\<newline>more text''\<rparr>"

definition unrelated_commit :: Commit where
  "unrelated_commit = \<lparr>hex = ''def456'', message = ''Unrelated change\<newline>fix later''\<rparr>"

definition closing_event :: "string \<Rightarrow> IssueEvent" where
  "closing_event c =
     \<lparr>event = ''closed'', commit_id = Some c,
      issue = \<lparr>number = 12, labels = [\<lparr>name = ''bug''\<rparr>]\<rparr>\<rparr>"

definition unlabelled_event :: IssueEvent where
  "unlabelled_event =
     \<lparr>event = ''closed'', commit_id = Some ''def456'', issue = \<lparr>number = 3, labels = []\<rparr>\<rparr>"

definition capital_Bug_event :: IssueEvent where
  "capital_Bug_event =
     \<lparr>event = ''closed'', commit_id = Some ''abc123'',
      issue = \<lparr>number = 12, labels = [\<lparr>name = ''Bug''\<rparr>]\<rparr>\<rparr>"

text \<open>A repository that knows exactly the commits of its history.\<close>

definition example_repo :: "Commit list \<Rightarrow> Repository" where
  "example_repo history =
     \<lparr>revparse_single = (\<lambda>r. case find (\<lambda>c. hex c = r) history of
                                None \<Rightarrow> Inl KeyError | Some c \<Rightarrow> Inr c),
      walk_from_head = history\<rparr>"

definition example_env :: "IssueEvent list \<Rightarrow> Commit list \<Rightarrow> environment" where
  "example_env events history =
     \<lparr>get_local_project_git_path_name = (\<lambda>project_name. project_name),
      get_local_project_git = (\<lambda>project_name. example_repo history),
      get_cached_github_object_list = (\<lambda>cache_file_name project_name. Some events)\<rparr>"

text \<open>Two bugs of each class whose introducing commits are the same in another order.\<close>

definition raw_xy :: RawBug where
  "raw_xy = \<lparr>fixing_commit = ''abc123'', introducing_commits = [''x1'', ''y2''], issue_id = Some 12\<rparr>"

definition raw_yx :: RawBug where
  "raw_yx = \<lparr>fixing_commit = ''abc123'', introducing_commits = [''y2'', ''x1''], issue_id = Some 12\<rparr>"

definition pygit_xy :: PygitBug where
  "pygit_xy =
     \<lparr>fixing_commit = fixing_commit_abc,
      introducing_commits = [unrelated_commit, fixing_commit_abc], issue_id = None\<rparr>"

definition pygit_yx :: PygitBug where
  "pygit_yx =
     \<lparr>fixing_commit = fixing_commit_abc,
      introducing_commits = [fixing_commit_abc, unrelated_commit], issue_id = None\<rparr>"

lemmas ex_defs = example_hash_def fixing_commit_abc_def unrelated_commit_def closing_event_def
  unlabelled_event_def example_repo_def example_env_def

section \<open>The detectors\<close>

lemma has_bug_label_iff: "has_bug_label ls = (''bug'' \<in> name ` set ls)"
  by (induction ls) auto

text \<open>
  C6. The issue-close detector holds exactly when the event's type is \<^verbatim>\<open>"closed"\<close>, the
  event has a commit id, and some label of its issue is named exactly \<^verbatim>\<open>"bug"\<close>. An
  event whose only label is named \<^verbatim>\<open>"Bug"\<close> does not pass.
\<close>

theorem has_closed_a_bug_exact_label:
  "has_closed_a_bug ev =
     (event ev = ''closed'' \<and> commit_id ev \<noteq> None \<and> ''bug'' \<in> name ` set (labels (issue ev))) \<and>
   (map name (labels (issue ev)) = [''Bug''] \<longrightarrow> \<not> has_closed_a_bug ev)"
proof -
  have iff: "has_closed_a_bug ev =
     (event ev = ''closed'' \<and> commit_id ev \<noteq> None \<and> ''bug'' \<in> name ` set (labels (issue ev)))"
    by (auto simp: has_closed_a_bug_def has_bug_label_iff)
  have "\<not> has_closed_a_bug ev" if "map name (labels (issue ev)) = [''Bug'']"
  proof -
    have "name ` set (labels (issue ev)) = set (map name (labels (issue ev)))" by simp
    also have "\<dots> = {''Bug''}" using that by (simp del: set_map)
    finally show ?thesis by (simp add: iff)
  qed
  with iff show ?thesis by (intro conjI impI)
qed

theorem has_closed_a_bug_exact_label_witness:
  "map name (labels (issue capital_Bug_event)) = [''Bug''] \<and>
   \<not> has_closed_a_bug capital_Bug_event \<and>
   has_closed_a_bug (closing_event ''abc123'')"
  using has_closed_a_bug_exact_label [of capital_Bug_event]
    has_closed_a_bug_exact_label [of "closing_event ''abc123''"]
  by (simp add: capital_Bug_event_def closing_event_def)

subsection \<open>The first line of a commit message\<close>

lemma str_index_absent: "c \<notin> set s \<Longrightarrow> str_index s c = Inl ValueError"
  by (induction s) auto

lemma str_index_present:
  "c \<in> set s \<Longrightarrow> str_index s c = Inr (length (takeWhile (\<lambda>x. x \<noteq> c) s))"
  by (induction s) auto

lemma take_length_takeWhile: "take (length (takeWhile P s)) s = takeWhile P s"
  by (induction s) auto

text \<open>A message without a line break makes the detector raise, whatever it says.\<close>

lemma is_closing_message_no_line_break:
  "newline \<notin> set m \<Longrightarrow> is_closing_message m = Inl ValueError"
  by (simp add: is_closing_message_def str_index_absent)


text \<open>
  C3. A commit message without a line break, the empty message included, should be ``no
  match''. The detector raises ValueError instead: \<^verbatim>\<open>commit_message.index('\n')\<close> finds no
  line break.
\<close>

theorem message_without_line_break_raises:
  "is_closing_message [] = Inl ValueError \<and>
   is_closing_message ''Unrelated change'' = Inl ValueError"
  by (simp add: is_closing_message_def newline_def)

subsection \<open>The search for the closing keywords\<close>

lemma match_literal_ic_iff:
  "match_literal_ic p s = (\<exists>v w. s = v @ w \<and> map sre_lower v = map sre_lower p)"
proof (induction p s rule: match_literal_ic.induct)
  case (1 s)
  then show ?case by simp
next
  case (2 p ps)
  then show ?case by simp
next
  case (3 p ps c cs)
  show ?case
  proof
    assume "match_literal_ic (p # ps) (c # cs)"
    with 3 obtain v w where
      "cs = v @ w" "map sre_lower v = map sre_lower ps" "sre_lower c = sre_lower p"
      by auto
    then have "c # cs = (c # v) @ w \<and> map sre_lower (c # v) = map sre_lower (p # ps)"
      by simp
    then show "\<exists>v w. c # cs = v @ w \<and> map sre_lower v = map sre_lower (p # ps)"
      by blast
  next
    assume "\<exists>v w. c # cs = v @ w \<and> map sre_lower v = map sre_lower (p # ps)"
    then obtain v w where vw: "c # cs = v @ w" "map sre_lower v = map sre_lower (p # ps)"
      by blast
    then obtain v' where "v = c # v'" by (cases v) auto
    with vw have "cs = v' @ w" "map sre_lower v' = map sre_lower ps" "sre_lower c = sre_lower p"
      by auto
    with 3 show "match_literal_ic (p # ps) (c # cs)" by auto
  qed
qed

lemma find_neq_None: "(find P xs \<noteq> None) = (\<exists>x\<in>set xs. P x)"
  by (induction xs) auto

lemma re_search_ic_Nil:
  "(re_search_ic alts [] \<noteq> None) = (\<exists>p\<in>set alts. match_literal_ic p [])"
  using find_neq_None [of "\<lambda>p. match_literal_ic p []" alts]
  by (cases "find (\<lambda>p. match_literal_ic p []) alts") auto

lemma re_search_ic_Cons:
  "(re_search_ic alts (c # s) \<noteq> None) =
   ((\<exists>p\<in>set alts. match_literal_ic p (c # s)) \<or> re_search_ic alts s \<noteq> None)"
  using find_neq_None [of "\<lambda>p. match_literal_ic p (c # s)" alts]
  by (cases "find (\<lambda>p. match_literal_ic p (c # s)) alts") auto

lemma suffix_Cons: "(\<exists>u t. c # s = u @ t \<and> Q t) = (Q (c # s) \<or> (\<exists>u t. s = u @ t \<and> Q t))"
  by (auto simp: Cons_eq_append_conv)

lemma re_search_ic_iff:
  "(re_search_ic alts s \<noteq> None) =
   (\<exists>u t. s = u @ t \<and> (\<exists>p\<in>set alts. match_literal_ic p t))"
proof (induction s)
  case Nil
  then show ?case by (simp only: re_search_ic_Nil) simp
next
  case (Cons c s)
  show ?case
    by (simp only: re_search_ic_Cons Cons.IH
        suffix_Cons [of c s "\<lambda>t. \<exists>p\<in>set alts. match_literal_ic p t"])
qed

lemma re_search_ic_occurs:
  "(re_search_ic alts s \<noteq> None) = (\<exists>p\<in>set alts. occurs_ic p s)"
  unfolding re_search_ic_iff match_literal_ic_iff occurs_ic_def by blast

text \<open>
  On a message with a line break the detector returns, and it says whether one of
  \<^verbatim>\<open>fix\<close>, \<^verbatim>\<open>fixed\<close>, \<^verbatim>\<open>fixes\<close> occurs, ignoring case, in the text before the first
  line break. The longer keywords add nothing to \<^verbatim>\<open>fix\<close>.
\<close>

lemma is_closing_message_line_break:
  assumes "newline \<in> set m"
  shows "is_closing_message m =
         Inr (\<exists>p\<in>set closing_pattern. occurs_ic p (takeWhile (\<lambda>c. c \<noteq> newline) m))"
proof -
  let ?l = "takeWhile (\<lambda>c. c \<noteq> newline) m"
  have "is_closing_message m = Inr (re_search_ic closing_pattern ?l \<noteq> None)"
    using assms
    by (cases "re_search_ic closing_pattern ?l")
       (simp_all add: is_closing_message_def str_index_present take_length_takeWhile)
  then show ?thesis by (simp only: re_search_ic_occurs)
qed

lemma closing_pattern_is_fix:
  "(\<exists>p\<in>set closing_pattern. occurs_ic p l) = occurs_ic ''fix'' l"
proof
  assume "\<exists>p\<in>set closing_pattern. occurs_ic p l"
  then consider "occurs_ic ''fix'' l" | "occurs_ic ''fixed'' l" | "occurs_ic ''fixes'' l"
    by (auto simp: closing_pattern_def)
  then show "occurs_ic ''fix'' l"
  proof cases
    case 1
    then show ?thesis .
  next
    case 2
    then obtain u v w where "l = u @ v @ w" "map sre_lower v = map sre_lower ''fixed''"
      unfolding occurs_ic_def by blast
    then have "l = u @ take 3 v @ (drop 3 v @ w) \<and>
               map sre_lower (take 3 v) = map sre_lower ''fix''"
      by (simp add: take_map [symmetric])
    then show ?thesis unfolding occurs_ic_def by blast
  next
    case 3
    then obtain u v w where "l = u @ v @ w" "map sre_lower v = map sre_lower ''fixes''"
      unfolding occurs_ic_def by blast
    then have "l = u @ take 3 v @ (drop 3 v @ w) \<and>
               map sre_lower (take 3 v) = map sre_lower ''fix''"
      by (simp add: take_map [symmetric])
    then show ?thesis unfolding occurs_ic_def by blast
  qed
next
  assume "occurs_ic ''fix'' l"
  then show "\<exists>p\<in>set closing_pattern. occurs_ic p l"
    by (auto simp: closing_pattern_def)
qed

text \<open>
  C4. The detector looks at the text before the first line break only and matches
  \<^verbatim>\<open>fix|fixed|fixes\<close> anywhere in it, ignoring case and word boundaries. Of the three
  examples of the specification the first two come out as stated; the third,
  \<^verbatim>\<open>"prefixed build"\<close>, has no line break and raises ValueError instead of returning true.
  With a line break after it the same line is a match.
\<close>

theorem closing_message_examples:
  "is_closing_message ''Fixes #12\<newline>more text'' = Inr True \<and>
   is_closing_message ''Unrelated change\<newline>fix later'' = Inr False \<and>
   is_closing_message ''prefixed build'' = Inl ValueError \<and>
   is_closing_message ''prefixed build\<newline>'' = Inr True"
proof (intro conjI)
  show "is_closing_message ''Fixes #12\<newline>more text'' = Inr True" by code_simp
  show "is_closing_message ''Unrelated change\<newline>fix later'' = Inr False" by code_simp
  show "is_closing_message ''prefixed build'' = Inl ValueError"
    by (simp add: is_closing_message_def newline_def)
  show "is_closing_message ''prefixed build\<newline>'' = Inr True" by code_simp
qed

section \<open>Equality and hashing of bug records\<close>

text \<open>A tuple of hashable items has a hash, and a set takes an element that has one.\<close>

lemma hash_tuple_hashable:
  "hash_tuple P [Inr x, Inr y, Inr z] = Inr (hash_combine P [x, y, z])"
  by (simp add: hash_tuple_def)

lemma set_add_hashable: "h x = Inr v \<Longrightarrow> set_add h x s = Inr (insert x s)"
  by (simp add: set_add_def)

lemma RawBug_eq_iff: "RawBug_eq a (RawBugObj b) = (a = b)"
  by (auto simp: RawBug_eq_def)

lemma PygitBug_eq_iff: "PygitBug_eq a (PygitBugObj b) = (a = b)"
  by (auto simp: PygitBug_eq_def)

text \<open>
  C2. Hashing a bug should never raise, so that bugs can be put into a set. Both
  \<^verbatim>\<open>__hash__\<close> methods hash a tuple that holds the list of introducing commits, and a list
  has no hash: hashing any bug of either class raises TypeError.
\<close>

theorem bug_hash_raises_TypeError:
  "PygitBug_hash P a = Inl TypeError \<and> RawBug_hash P b = Inl TypeError"
  by (simp add: PygitBug_hash_def RawBug_hash_def hash_tuple_def hash_list_def)

text \<open>
  Equality of both classes compares the introducing commits as a sequence: bugs whose
  introducing commits are the same commits in a different order are unequal.
\<close>

lemma bug_eq_order_sensitive:
  "(mset (introducing_commits a) = mset (introducing_commits b) \<and>
    introducing_commits a \<noteq> introducing_commits b
    \<longrightarrow> \<not> RawBug_eq a (RawBugObj b) \<and> \<not> RawBug_eq b (RawBugObj a)) \<and>
   (mset (introducing_commits a') = mset (introducing_commits b') \<and>
    introducing_commits a' \<noteq> introducing_commits b'
    \<longrightarrow> \<not> PygitBug_eq a' (PygitBugObj b') \<and> \<not> PygitBug_eq b' (PygitBugObj a'))"
  by (auto simp: RawBug_eq_def PygitBug_eq_def)

text \<open>
  C8. Two bugs of the same class with the same fixing commit and issue id, whose
  introducing commits are the same commits in a different order, are not equal, so that
  both can be in a set. They are unequal, but neither can be in a set: adding either to
  the empty set hashes it, which raises TypeError, for both classes.
\<close>

theorem reordered_bugs_cannot_enter_a_set:
  "fixing_commit raw_xy = fixing_commit raw_yx \<and> issue_id raw_xy = issue_id raw_yx \<and>
   mset (introducing_commits raw_xy) = mset (introducing_commits raw_yx) \<and>
   \<not> RawBug_eq raw_xy (RawBugObj raw_yx) \<and> \<not> RawBug_eq raw_yx (RawBugObj raw_xy) \<and>
   set_add (RawBug_hash example_hash) raw_xy {} = Inl TypeError \<and>
   set_add (RawBug_hash example_hash) raw_yx {} = Inl TypeError \<and>
   fixing_commit pygit_xy = fixing_commit pygit_yx \<and> issue_id pygit_xy = issue_id pygit_yx \<and>
   mset (introducing_commits pygit_xy) = mset (introducing_commits pygit_yx) \<and>
   \<not> PygitBug_eq pygit_xy (PygitBugObj pygit_yx) \<and>
   \<not> PygitBug_eq pygit_yx (PygitBugObj pygit_xy) \<and>
   set_add (PygitBug_hash example_hash) pygit_xy {} = Inl TypeError \<and>
   set_add (PygitBug_hash example_hash) pygit_yx {} = Inl TypeError"
  by (simp add: raw_xy_def raw_yx_def pygit_xy_def pygit_yx_def fixing_commit_abc_def
      unrelated_commit_def RawBug_eq_def PygitBug_eq_def set_add_def RawBug_hash_def
      PygitBug_hash_def hash_tuple_def hash_list_def)

section \<open>Resolver and reconciliation\<close>

text \<open>The loop raises as soon as the filter function raises on one of its elements.\<close>

lemma add_accepted_raises:
  "x \<in> set xs \<Longrightarrow> isl (f x) \<Longrightarrow> isl (add_accepted h f xs acc)"
proof (induction xs arbitrary: acc)
  case Nil
  then show ?case by simp
next
  case (Cons y ys)
  show ?case
  proof (cases "f y")
    case (Inl e)
    then show ?thesis by simp
  next
    case (Inr r)
    with Cons.prems have x: "x \<in> set ys" by auto
    show ?thesis
    proof (cases r)
      case None
      with Inr Cons.IH [OF x Cons.prems(2)] show ?thesis by simp
    next
      case (Some bug)
      with Inr Cons.IH [OF x Cons.prems(2)] show ?thesis
        by (cases "set_add h bug acc") simp_all
    qed
  qed
qed


lemma filter_all_pygit_bugs_raises:
  assumes "(\<exists>ev\<in>set (get_all_issue_events env p). isl (fi ev)) \<or>
           (\<exists>c\<in>set (walk_from_head (get_local_project_git env p)). isl (fc c))"
  shows "isl (filter_all_pygit_bugs P env p fi fc)"
proof (cases "add_accepted (PygitBug_hash P) fi (get_all_issue_events env p) {}")
  case (Inl e)
  then show ?thesis by (simp add: filter_all_pygit_bugs_def)
next
  case (Inr bugs)
  have "\<not> (\<exists>ev\<in>set (get_all_issue_events env p). isl (fi ev))"
    using add_accepted_raises [of _ "get_all_issue_events env p" fi "PygitBug_hash P" "{}"] Inr
    by auto
  with assms obtain c where
    "c \<in> set (walk_from_head (get_local_project_git env p))" "isl (fc c)"
    by blast
  then have "isl (add_accepted (PygitBug_hash P) fc
                    (walk_from_head (get_local_project_git env p)) bugs)"
    by (rule add_accepted_raises)
  with Inr show ?thesis by (simp add: filter_all_pygit_bugs_def)
qed

lemma closing_identifiers_cases:
  assumes "i \<in> set (closing_identifiers env p)"
  shows "(\<exists>ev\<in>set (get_all_issue_events env p).
            has_closed_a_bug ev \<and> truthy (commit_id ev) \<and> commit_id ev = Some i) \<or>
         (\<exists>c\<in>set (walk_from_head (get_local_project_git env p)).
            is_closing_message (message c) = Inr True \<and> hex c = i)"
  using assms by (auto simp: closing_identifiers_def truthy_def split: option.splits)


text \<open>
  C5. An issue event or a commit whose closing identifier does not resolve should cost
  that one event its bug, and the find-all query should complete with the bugs of the
  others. For a project with one bug-closing event whose commit the repository does not
  know, and a history without closing commits, the resolver raises KeyError, where it is
  documented to return a bug or \<^verbatim>\<open>None\<close>, and the query raises KeyError, where the empty
  set is expected.
\<close>

theorem unresolved_event_aborts_find_all:
  "search_corresponding_pygit_bug ''zzz999'' (example_repo [unrelated_commit]) (Some 12)
     = Inl KeyError \<and>
   find_all_pygit_bugs example_hash
     (example_env [closing_event ''zzz999''] [unrelated_commit]) ''gzip'' = Inl KeyError"
  by (simp add: ex_defs find_all_pygit_bugs_def filter_all_pygit_bugs_def
      get_all_issue_events_def accept_all_issue_pybugs_def has_closed_a_bug_def truthy_def
      search_corresponding_pygit_bug_def)

text \<open>
  The example is not particular: whenever a closing identifier of the project (of an
  event that passes the issue-close detector, or of a commit that passes the
  commit-message detector) does not resolve, the resolver raises the repository's error
  for it and the find-all query over commit objects raises.
\<close>

lemma resolution_failure_raises:
  assumes "i \<in> set (closing_identifiers env p)"
    and "revparse_single (get_local_project_git env p) i = Inl e"
  shows "search_corresponding_pygit_bug i (get_local_project_git env p) n = Inl e \<and>
         isl (find_all_pygit_bugs P env p)"
proof (intro conjI)
  show "search_corresponding_pygit_bug i (get_local_project_git env p) n = Inl e"
    using assms(2) by (simp add: search_corresponding_pygit_bug_def)
  from closing_identifiers_cases [OF assms(1)]
  have "(\<exists>ev\<in>set (get_all_issue_events env p). isl (accept_all_issue_pybugs env p ev)) \<or>
        (\<exists>c\<in>set (walk_from_head (get_local_project_git env p)).
           isl (accept_all_commit_pybugs env p c))"
  proof
    assume "\<exists>ev\<in>set (get_all_issue_events env p).
              has_closed_a_bug ev \<and> truthy (commit_id ev) \<and> commit_id ev = Some i"
    then obtain ev where "ev \<in> set (get_all_issue_events env p)"
      "has_closed_a_bug ev" "truthy (commit_id ev)" "commit_id ev = Some i" by blast
    moreover from this assms(2) have "isl (accept_all_issue_pybugs env p ev)"
      by (simp add: accept_all_issue_pybugs_def search_corresponding_pygit_bug_def)
    ultimately show ?thesis by blast
  next
    assume "\<exists>c\<in>set (walk_from_head (get_local_project_git env p)).
              is_closing_message (message c) = Inr True \<and> hex c = i"
    then obtain c where "c \<in> set (walk_from_head (get_local_project_git env p))"
      "is_closing_message (message c) = Inr True" "hex c = i" by blast
    moreover from this assms(2) have "isl (accept_all_commit_pybugs env p c)"
      by (simp add: accept_all_commit_pybugs_def search_corresponding_pygit_bug_def)
    ultimately show ?thesis by blast
  qed
  then show "isl (find_all_pygit_bugs P env p)"
    unfolding find_all_pygit_bugs_def by (rule filter_all_pygit_bugs_raises)
qed

text \<open>
  C7. A fixing commit found through the tracker (with issue number 12) and through its
  message (without one) gives two unequal records, and the find-all query should return
  both. The records are unequal, but the query returns no set: adding the first record
  hashes it, which raises TypeError, for both classes of bugs.
\<close>

theorem tracker_and_history_bug_not_collected:
  "\<not> RawBug_eq (search_corresponding_raw_bug ''abc123'' (example_repo [fixing_commit_abc]) (Some 12))
      (RawBugObj (search_corresponding_raw_bug ''abc123'' (example_repo [fixing_commit_abc]) None)) \<and>
   find_all_raw_bugs example_hash
     (example_env [closing_event ''abc123''] [fixing_commit_abc]) ''gzip'' = Inl TypeError \<and>
   find_all_pygit_bugs example_hash
     (example_env [closing_event ''abc123''] [fixing_commit_abc]) ''gzip'' = Inl TypeError"
proof (intro conjI)
  show "\<not> RawBug_eq (search_corresponding_raw_bug ''abc123'' (example_repo [fixing_commit_abc]) (Some 12))
      (RawBugObj (search_corresponding_raw_bug ''abc123'' (example_repo [fixing_commit_abc]) None))"
    by (simp add: RawBug_eq_def search_corresponding_raw_bug_def)
  show "find_all_raw_bugs example_hash
     (example_env [closing_event ''abc123''] [fixing_commit_abc]) ''gzip'' = Inl TypeError"
    by (simp add: ex_defs find_all_raw_bugs_def filter_all_raw_bugs_def
        get_all_issue_events_def accept_all_issue_rawbugs_def has_closed_a_bug_def truthy_def
        search_corresponding_raw_bug_def set_add_def RawBug_hash_def hash_tuple_def
        hash_list_def)
  show "find_all_pygit_bugs example_hash
     (example_env [closing_event ''abc123''] [fixing_commit_abc]) ''gzip'' = Inl TypeError"
    by (simp add: ex_defs find_all_pygit_bugs_def filter_all_pygit_bugs_def
        get_all_issue_events_def accept_all_issue_pybugs_def has_closed_a_bug_def truthy_def
        search_corresponding_pygit_bug_def set_add_def PygitBug_hash_def hash_tuple_def
        hash_list_def)
qed

subsection \<open>Bugs by introducing commit\<close>








section \<open>The providers\<close>

text \<open>
  None of the twelve names under which the provider calls the bug module is bound in
  the module that is shipped.
\<close>

lemma provider_names_unbound:
  "list_all (\<lambda>attr. bug_py P env attr = None)
     [''find_all_issue_pygit_bugs'', ''find_all_commit_message_pygit_bugs'',
      ''find_all_issue_raw_bugs'', ''find_all_commit_message_raw_bugs'',
      ''find_issue_pygit_bugs_by_fix'', ''find_commit_message_pygit_bugs_by_fix'',
      ''find_issue_raw_bugs_by_fix'', ''find_commit_message_raw_bugs_by_fix'',
      ''find_issue_pygit_bugs_by_introduction'',
      ''find_commit_message_pygit_bugs_by_introduction'',
      ''find_issue_raw_bugs_by_introduction'',
      ''find_commit_message_raw_bugs_by_introduction'']"
  by (simp add: bug_py_def bug_py_other_names_def)

text \<open>
  Whatever module the name \<^verbatim>\<open>bug\<close> is bound to, a find-all query of \<^verbatim>\<open>BugProvider\<close>
  that returns, returns the empty set: the result of \<^verbatim>\<open>union\<close> is dropped.
\<close>

lemma BugProvider_find_all_raw_bugs_empty:
  "BugProvider_find_all_raw_bugs bug project gh = Inr S \<Longrightarrow> S = {}"
  by (auto simp: BugProvider_find_all_raw_bugs_def bind_err_def expr_stmt_def Let_def
      split: if_splits sum.splits)

lemma BugProvider_find_all_pygit_bugs_empty:
  "BugProvider_find_all_pygit_bugs bug project gh = Inr S \<Longrightarrow> S = {}"
  by (auto simp: BugProvider_find_all_pygit_bugs_def bind_err_def expr_stmt_def Let_def
      split: if_splits sum.splits)

text \<open>
  C1. The find-all query of the provider should return the union of the tracker-sourced
  and the history-sourced bugs, and the history-sourced bugs when the project has no
  tracker. With the bug module that is shipped it returns nothing: for every project,
  with or without tracker, the query raises AttributeError, since the module binds
  neither \<^verbatim>\<open>find_all_issue_raw_bugs\<close> nor \<^verbatim>\<open>find_all_commit_message_raw_bugs\<close> (nor the
  two names of the query over commit objects).
\<close>

theorem provider_find_all_raises_AttributeError:
  "call_find_all_raw_bugs (bug_py P env) (BugProvider project github_project_name)
     = Inl AttributeError \<and>
   call_find_all_pygit_bugs (bug_py P env) (BugProvider project github_project_name)
     = Inl AttributeError"
  by (simp add: call_find_all_raw_bugs_def call_find_all_pygit_bugs_def
      BugProvider_find_all_raw_bugs_def BugProvider_find_all_pygit_bugs_def
      module_getattr_def bug_py_def bug_py_other_names_def bind_err_def expr_stmt_def)

text \<open>
  C9. The default provider answers each of the six queries with the empty set, for
  every argument.
\<close>

theorem default_provider_answers_empty:
  "call_find_all_pygit_bugs B (create_default_provider project) = Inr {} \<and>
   call_find_all_raw_bugs B (create_default_provider project) = Inr {} \<and>
   call_find_pygit_bug_by_fix B (create_default_provider project) fixing_id = Inr {} \<and>
   call_find_raw_bug_by_fix B (create_default_provider project) fixing_id = Inr {} \<and>
   call_find_pygit_bug_by_introduction B (create_default_provider project) introducing_id = Inr {} \<and>
   call_find_raw_bug_by_introduction B (create_default_provider project) introducing_id = Inr {}"
  by (simp add: create_default_provider_def
      call_find_all_pygit_bugs_def call_find_all_raw_bugs_def
      call_find_pygit_bug_by_fix_def call_find_raw_bug_by_fix_def
      call_find_pygit_bug_by_introduction_def call_find_raw_bug_by_introduction_def
      BugDefaultProvider_find_all_pygit_bugs_def BugDefaultProvider_find_all_raw_bugs_def
      BugDefaultProvider_find_pygit_bug_by_fix_def BugDefaultProvider_find_raw_bug_by_fix_def
      BugDefaultProvider_find_pygit_bug_by_introduction_def
      BugDefaultProvider_find_raw_bug_by_introduction_def)

end
